theory Spec2Isabelle
  imports Complex_Main "HOL-Library.Char_ord" "HOL-Library.List_Lexorder"
begin

section \<open>Data model: tables\<close>

text \<open>
  The program works on pandas frames. A frame is modelled by its ordered column labels and
  its rows; a row carries its index label and one cell per column. A cell is a number, a
  string, a boolean or the missing value NaN. Numbers are reals: the finite integers and
  floats of the program embed in them, and comparing two of them is comparing the reals.

  pandas keeps every frame rectangular (\<open>rectangular\<close>). The specification's data model
  has every row map column names to values, so column labels are unique
  (\<open>unique_columns\<close>); pandas itself allows repeated labels, and the selection
  \<open>getitem_list\<close> follows it there (a repeated label selects every column that carries it).
\<close>

datatype cell = Num real | Str string | Bool bool | NaN

record table =
  columns :: "string list"
  rows :: "(cell \<times> cell list) list"

text \<open>
  An exception is a value. The first four are raised by Python and the libraries; the last
  two are the errors the specification names, which no function of the source raises.
\<close>

datatype error = KeyError | TypeError | ValueError | MergeError
  | SchemaMismatchError | InsufficientSamplesError

definition rectangular :: "table \<Rightarrow> bool" where
  "rectangular df = list_all (\<lambda>r. length (snd r) = length (columns df)) (rows df)"

definition unique_columns :: "table \<Rightarrow> bool" where
  "unique_columns df = distinct (columns df)"

text \<open>
  The cells of one row under the label \<open>c\<close>, left to right, and the cell under \<open>c\<close>
  when labels are unique.
\<close>

definition cells_under :: "string list \<Rightarrow> cell list \<Rightarrow> string \<Rightarrow> cell list" where
  "cells_under cols r c = map snd (filter (\<lambda>p. fst p = c) (zip cols r))"

definition cell_of :: "string list \<Rightarrow> cell list \<Rightarrow> string \<Rightarrow> cell option" where
  "cell_of cols r c = map_of (zip cols r) c"

section \<open>src/preprocess.py: align\_features\<close>

text \<open>
  \<^verbatim>\<open>df[c] = v\<close> with a scalar \<open>v\<close>: a label the frame has is overwritten in every
  row, a new label is appended as the last column.
\<close>

definition setitem_scalar :: "table \<Rightarrow> string \<Rightarrow> cell \<Rightarrow> table" where
  "setitem_scalar df c v =
     (if c \<in> set (columns df)
      then df\<lparr>rows := map (\<lambda>r. (fst r,
                  map (\<lambda>p. if fst p = c then v else snd p) (zip (columns df) (snd r)))) (rows df)\<rparr>
      else df\<lparr>columns := columns df @ [c],
              rows := map (\<lambda>r. (fst r, snd r @ [v])) (rows df)\<rparr>)"

text \<open>
  \<^verbatim>\<open>df[labels]\<close> with a list of labels: KeyError when a label is not in the frame,
  otherwise a new frame with the selected columns in the order of the list and the same
  index.
\<close>

definition getitem_list :: "table \<Rightarrow> string list \<Rightarrow> error + table" where
  "getitem_list df cs =
     (if list_ex (\<lambda>c. c \<notin> set (columns df)) cs then Inl KeyError
      else Inr \<lparr>columns = concat (map (\<lambda>c. filter (\<lambda>n. n = c) (columns df)) cs),
                rows = map (\<lambda>r. (fst r, concat (map (cells_under (columns df) (snd r)) cs)))
                         (rows df)\<rparr>)"

text \<open>\<^verbatim>\<open>set(train_df.columns) - set(test_df.columns)\<close>\<close>

definition missing_cols :: "table \<Rightarrow> table \<Rightarrow> string set" where
  "missing_cols train_df test_df = set (columns train_df) - set (columns test_df)"

text \<open>
  The loop \<^verbatim>\<open>for c in missing_cols: test_df[c] = 0\<close>, over the labels in the order the
  iteration visits them. It assigns into the caller's frame.
\<close>

fun add_zero_columns :: "string list \<Rightarrow> table \<Rightarrow> table" where
  "add_zero_columns [] df = df"
| "add_zero_columns (c # cs) df = add_zero_columns cs (setitem_scalar df c (Num 0))"

text \<open>
  \<open>align_features\<close>. Python iterates a set in an order the language does not fix, so the
  order \<open>visit\<close> in which the loop visits \<open>missing_cols\<close> is an argument; the theorems
  hold for every enumeration of the set. The function assigns into its argument, so the
  model returns the caller's \<open>test_df\<close> as it is after the call, and the returned value.
\<close>

definition iterates :: "string list \<Rightarrow> string set \<Rightarrow> bool" where
  "iterates visit S = (distinct visit \<and> set visit = S)"

definition align_features :: "string list \<Rightarrow> table \<Rightarrow> table \<Rightarrow> table \<times> (error + table)" where
  "align_features visit train_df test_df =
     (let test_df' = add_zero_columns visit test_df
      in (test_df', getitem_list test_df' (columns train_df)))"

text \<open>Two frames used to run the definitions on.\<close>

definition ex_train :: table where
  "ex_train = \<lparr>columns = [''a'', ''b''], rows = []\<rparr>"

definition ex_test :: table where
  "ex_test = \<lparr>columns = [''a'', ''x''], rows = [(Num 7, [Num 1, Num 2])]\<rparr>"

section \<open>src/preprocess.py: remove\_outliers\<close>

text \<open>
  \<^verbatim>\<open>df[column]\<close> with one label: KeyError when the frame does not have it, otherwise
  the series of that column, one cell per row (the label is unique).
\<close>

definition column_cells :: "table \<Rightarrow> string \<Rightarrow> cell list" where
  "column_cells df c = concat (map (\<lambda>r. cells_under (columns df) (snd r) c) (rows df))"

definition getitem_col :: "table \<Rightarrow> string \<Rightarrow> error + cell list" where
  "getitem_col df c = (if c \<in> set (columns df) then Inr (column_cells df c) else Inl KeyError)"

text \<open>
  \<^verbatim>\<open>series <= threshold\<close>, cell by cell: numbers compare as numbers, booleans as 0 and
  1, a comparison with NaN is false, and a string against a float raises TypeError.
\<close>

fun cell_le :: "cell \<Rightarrow> real \<Rightarrow> error + bool" where
  "cell_le (Num x) t = Inr (x \<le> t)"
| "cell_le (Bool b) t = Inr ((if b then 1 else 0) \<le> t)"
| "cell_le NaN t = Inr False"
| "cell_le (Str s) t = Inl TypeError"

fun series_le :: "cell list \<Rightarrow> real \<Rightarrow> error + bool list" where
  "series_le [] t = Inr []"
| "series_le (x # xs) t =
     (case cell_le x t of
        Inl e \<Rightarrow> Inl e
      | Inr b \<Rightarrow> (case series_le xs t of Inl e \<Rightarrow> Inl e | Inr bs \<Rightarrow> Inr (b # bs)))"

text \<open>\<^verbatim>\<open>df[mask]\<close> with a boolean series: the rows whose mask entry is true.\<close>

definition getitem_mask :: "table \<Rightarrow> bool list \<Rightarrow> table" where
  "getitem_mask df m = df\<lparr>rows := map snd (filter fst (zip m (rows df)))\<rparr>"

definition remove_outliers :: "table \<Rightarrow> string \<Rightarrow> real \<Rightarrow> error + table" where
  "remove_outliers df column threshold =
     (case getitem_col df column of
        Inl e \<Rightarrow> Inl e
      | Inr s \<Rightarrow> (case series_le s threshold of
                    Inl e \<Rightarrow> Inl e
                  | Inr m \<Rightarrow> Inr (getitem_mask df m)))"

text \<open>
  The words of the claims about \<open>remove_outliers\<close>: the numeric value of a cell, a row
  whose value under \<open>c\<close> is at most \<open>t\<close>, and a column that holds no string.
\<close>

fun num_of :: "cell \<Rightarrow> real option" where
  "num_of (Num x) = Some x"
| "num_of (Bool b) = Some (if b then 1 else 0)"
| "num_of NaN = None"
| "num_of (Str s) = None"

definition at_most :: "string list \<Rightarrow> string \<Rightarrow> real \<Rightarrow> cell \<times> cell list \<Rightarrow> bool" where
  "at_most cols c t r =
     (case cell_of cols (snd r) c of
        None \<Rightarrow> False
      | Some v \<Rightarrow> (case num_of v of None \<Rightarrow> False | Some x \<Rightarrow> x \<le> t))"

fun is_str :: "cell \<Rightarrow> bool" where
  "is_str (Str s) = True"
| "is_str (Num x) = False"
| "is_str (Bool b) = False"
| "is_str NaN = False"

definition numeric_column :: "table \<Rightarrow> string \<Rightarrow> bool" where
  "numeric_column df c = list_all (\<lambda>v. \<not> is_str v) (column_cells df c)"

definition ex_ages :: table where
  "ex_ages = \<lparr>columns = [''id'', ''age''],
              rows = [(Num 0, [Num 1, Num 10]), (Num 1, [Num 2, NaN]),
                      (Num 2, [Num 3, Num 995]), (Num 3, [Num 4, Num 30])]\<rparr>"

section \<open>src/dataset.py: the left merge on building\_id\<close>















section \<open>src/preprocess.py: one\_hot\_encode\<close>

text \<open>
  \<open>one_hot_encode\<close> is \<^verbatim>\<open>pd.get_dummies(df)\<close>. pandas encodes the columns of object
  dtype; a column is taken to be of object dtype when it holds a string, as the columns
  are that \<^verbatim>\<open>read_csv\<close> builds from text (a column that mixes strings with numbers is
  not modelled: only its strings count as categories). The categories of a column are its
  distinct strings in ascending order (pandas builds a Categorical, whose categories are
  sorted); a missing value is no category. The result lists the columns that are not
  encoded first, in their order, then for each encoded column, left to right, one
  indicator column per category, named column, underscore, category. A frame without any
  column gives pandas nothing to concatenate (ValueError).
\<close>

fun strings_of :: "cell list \<Rightarrow> string list" where
  "strings_of [] = []"
| "strings_of (Str s # vs) = s # strings_of vs"
| "strings_of (Num x # vs) = strings_of vs"
| "strings_of (Bool b # vs) = strings_of vs"
| "strings_of (NaN # vs) = strings_of vs"

definition is_object :: "table \<Rightarrow> string \<Rightarrow> bool" where
  "is_object df c = list_ex is_str (column_cells df c)"

definition categories :: "table \<Rightarrow> string \<Rightarrow> string list" where
  "categories df c = sort (remdups (strings_of (column_cells df c)))"

definition dummy_name :: "string \<Rightarrow> string \<Rightarrow> string" where
  "dummy_name c v = c @ ''_'' @ v"

definition get_dummies :: "table \<Rightarrow> error + table" where
  "get_dummies df =
     (if columns df = [] then Inl ValueError
      else
        let encoded = filter (is_object df) (columns df);
            kept = filter (\<lambda>c. \<not> is_object df c) (columns df)
        in Inr \<lparr>columns = kept @ concat (map (\<lambda>c. map (dummy_name c) (categories df c)) encoded),
                rows = map (\<lambda>r. (fst r,
                    concat (map (cells_under (columns df) (snd r)) kept) @
                    concat (map (\<lambda>c. map (\<lambda>v. Bool (cell_of (columns df) (snd r) c = Some (Str v)))
                                         (categories df c)) encoded)))
                  (rows df)\<rparr>)"




definition ex_land :: table where
  "ex_land = \<lparr>columns = [''land'', ''age''],
              rows = [(Num 0, [Str ''t'', Num 10]), (Num 1, [Str ''n'', Num 20]),
                      (Num 2, [Str ''t'', Num 30])]\<rparr>"

section \<open>src/preprocess.py: smote\_oversample\<close>

text \<open>
  \<open>smote_oversample\<close> builds \<^verbatim>\<open>SMOTE(random_state=random_state)\<close> and returns what its
  \<^verbatim>\<open>fit_resample(X_train, y_train.values.ravel())\<close> returns. Of the library this model
  keeps the checks on the labels: as many labels as rows, at least two classes, and, for
  every class smaller than the largest one, enough members to find \<open>k_neighbors\<close>
  neighbours of each (the sample itself is counted, so \<open>k_neighbors + 1\<close> members; the
  default \<open>k_neighbors\<close> is 5). Each failed check raises the library's ValueError. The
  synthesis of the new rows is the argument \<open>synthesize\<close>.
\<close>

definition k_neighbors :: nat where
  "k_neighbors = 5"

definition majority_count :: "cell list \<Rightarrow> nat" where
  "majority_count y = foldr max (map (count_list y) y) 0"

definition starved_classes :: "cell list \<Rightarrow> cell list" where
  "starved_classes y =
     filter (\<lambda>c. count_list y c < majority_count y \<and> count_list y c < k_neighbors + 1)
       (remdups y)"

definition fit_resample ::
  "(nat \<Rightarrow> table \<Rightarrow> cell list \<Rightarrow> table \<times> cell list) \<Rightarrow> nat \<Rightarrow> table \<Rightarrow> cell list
     \<Rightarrow> error + table \<times> cell list" where
  "fit_resample synthesize seed X y =
     (if length (rows X) \<noteq> length y then Inl ValueError
      else if length (remdups y) \<le> 1 then Inl ValueError
      else if starved_classes y \<noteq> [] then Inl ValueError
      else Inr (synthesize seed X y))"

text \<open>\<^verbatim>\<open>y_train.values.ravel()\<close>: the cells of the label frame, row by row.\<close>

definition ravel :: "table \<Rightarrow> cell list" where
  "ravel df = concat (map snd (rows df))"

definition smote_oversample ::
  "(nat \<Rightarrow> table \<Rightarrow> cell list \<Rightarrow> table \<times> cell list) \<Rightarrow> table \<Rightarrow> table \<Rightarrow> nat
     \<Rightarrow> error + table \<times> cell list" where
  "smote_oversample synthesize X_train y_train random_state =
     fit_resample synthesize random_state X_train (ravel y_train)"

definition ex_X :: table where
  "ex_X = \<lparr>columns = [''age''],
           rows = [(Num 0, [Num 10]), (Num 1, [Num 20]), (Num 2, [Num 30])]\<rparr>"

definition ex_y :: table where
  "ex_y = \<lparr>columns = [''damage_grade''],
           rows = [(Num 0, [Num 1]), (Num 1, [Num 1]), (Num 2, [Num 2])]\<rparr>"

section \<open>src/modeling/predict.py: create\_submission\<close>

text \<open>
  The fitted model: the feature names it recorded when it was fitted, if it did
  (\<^verbatim>\<open>hasattr(model, "feature_names_in_")\<close>), and its \<open>predict\<close>, which returns one
  prediction per row or fails.
\<close>

record fitted_model =
  feature_names_in :: "string list option"
  predict :: "table \<Rightarrow> error + cell list"

text \<open>
  \<^verbatim>\<open>df.reindex(columns=labels, fill_value=v)\<close>: a new frame with exactly the labels
  asked for; a label the frame lacks is filled with \<open>v\<close>. pandas refuses to reindex a
  frame whose labels repeat (ValueError).
\<close>

definition reindex_columns :: "table \<Rightarrow> string list \<Rightarrow> cell \<Rightarrow> error + table" where
  "reindex_columns df labels v =
     (if \<not> distinct (columns df) then Inl ValueError
      else Inr \<lparr>columns = labels,
                rows = map (\<lambda>r. (fst r, map (\<lambda>c. case cell_of (columns df) (snd r) c of
                                                  None \<Rightarrow> v | Some x \<Rightarrow> x) labels)) (rows df)\<rparr>)"

text \<open>
  \<^verbatim>\<open>pd.DataFrame(data=predictions, columns=..., index=...)\<close> with a one-dimensional array
  of predictions: the array is one column, so pandas raises ValueError unless there is
  exactly one column label and as many index labels as predictions.
\<close>

definition DataFrame :: "cell list \<Rightarrow> string list \<Rightarrow> cell list \<Rightarrow> error + table" where
  "DataFrame data labels idx =
     (if length data = length idx \<and> length labels = 1
      then Inr \<lparr>columns = labels, rows = zip idx (map (\<lambda>p. [p]) data)\<rparr>
      else Inl ValueError)"

text \<open>
  The predictions \<open>create_submission\<close> computes from the test frame (read with
  \<open>building_id\<close> as index), and the function itself. Reading and writing files is outside
  the model: the arguments are the frames read from the test file and from the
  submission-format template, the result is the frame handed to \<^verbatim>\<open>to_csv\<close>.
\<close>

definition predictions_of :: "fitted_model \<Rightarrow> table \<Rightarrow> error + cell list" where
  "predictions_of model test_values =
     (case get_dummies test_values of
        Inl e \<Rightarrow> Inl e
      | Inr encoded \<Rightarrow>
          (case (case feature_names_in model of
                   None \<Rightarrow> Inr encoded
                 | Some names \<Rightarrow> reindex_columns encoded names (Num 0)) of
             Inl e \<Rightarrow> Inl e
           | Inr aligned \<Rightarrow> predict model aligned))"

definition create_submission :: "fitted_model \<Rightarrow> table \<Rightarrow> table \<Rightarrow> error + table" where
  "create_submission model test_values submission_format =
     (case predictions_of model test_values of
        Inl e \<Rightarrow> Inl e
      | Inr predictions \<Rightarrow>
          DataFrame predictions (columns submission_format) (map fst (rows submission_format)))"

definition ex_model :: fitted_model where
  "ex_model = \<lparr>feature_names_in = Some [''age'', ''land_n'', ''land_r''],
               predict = (\<lambda>df. Inr (map (\<lambda>r. Num 2) (rows df)))\<rparr>"

definition ex_format :: table where
  "ex_format = \<lparr>columns = [''damage_grade''],
                rows = [(Num 11, [Num 1]), (Num 12, [Num 1]), (Num 13, [Num 1])]\<rparr>"

definition ex_short_format :: table where
  "ex_short_format = \<lparr>columns = [''damage_grade''], rows = [(Num 11, [Num 1])]\<rparr>"

section \<open>src/modeling/train.py: build\_rf\_pipeline\<close>

text \<open>
  Python values that are passed as hyperparameters, and an estimator as scikit-learn
  builds it: the constructor stores its arguments as the estimator's parameters and
  checks them only when the estimator is fitted.
\<close>

datatype pyval = PNone | PInt int | PReal real | PBool bool | PStr string
  | PDict "(string \<times> pyval) list"

record estimator =
  est_class :: string
  est_params :: "(string \<times> pyval) list"
  est_fitted :: bool

text \<open>
  A call of a constructor with positional and keyword arguments. \<open>defaults\<close> lists the
  constructor's parameters with their default values, \<open>positional\<close> the parameters that
  may be passed by position, in order. Python raises TypeError for too many positional
  arguments, an unknown keyword, or a parameter given twice.
\<close>

definition bind_args ::
  "string list \<Rightarrow> pyval list \<Rightarrow> (string \<times> pyval) list \<Rightarrow> (string \<times> pyval) list" where
  "bind_args positional args kwargs = zip positional args @ kwargs"

definition construct ::
  "string \<Rightarrow> (string \<times> pyval) list \<Rightarrow> string list \<Rightarrow> pyval list \<Rightarrow> (string \<times> pyval) list
     \<Rightarrow> error + estimator" where
  "construct cls defaults positional args kwargs =
     (let given = bind_args positional args kwargs
      in if length positional < length args
            \<or> list_ex (\<lambda>k. k \<notin> set (map fst defaults)) (map fst given)
            \<or> \<not> distinct (map fst given)
         then Inl TypeError
         else Inr \<lparr>est_class = cls,
                   est_params = map (\<lambda>d. (fst d, case map_of given (fst d) of
                                                   None \<Rightarrow> snd d | Some x \<Rightarrow> x)) defaults,
                   est_fitted = False\<rparr>)"

text \<open>
  \<^verbatim>\<open>StandardScaler(*, copy=True, with_mean=True, with_std=True)\<close> and
  \<^verbatim>\<open>RandomForestClassifier(n_estimators=100, *, criterion="gini", max_depth=None, ...)\<close>
  of scikit-learn: the forest takes one parameter by position, the number of trees.
\<close>

definition StandardScaler :: "pyval list \<Rightarrow> (string \<times> pyval) list \<Rightarrow> error + estimator" where
  "StandardScaler = construct ''StandardScaler''
     [(''copy'', PBool True), (''with_mean'', PBool True), (''with_std'', PBool True)] []"

definition rf_defaults :: "(string \<times> pyval) list" where
  "rf_defaults =
     [(''n_estimators'', PInt 100), (''criterion'', PStr ''gini''), (''max_depth'', PNone),
      (''min_samples_split'', PInt 2), (''min_samples_leaf'', PInt 1),
      (''min_weight_fraction_leaf'', PReal 0), (''max_features'', PStr ''sqrt''),
      (''max_leaf_nodes'', PNone), (''min_impurity_decrease'', PReal 0),
      (''bootstrap'', PBool True), (''oob_score'', PBool False), (''n_jobs'', PNone),
      (''random_state'', PNone), (''verbose'', PInt 0), (''warm_start'', PBool False),
      (''class_weight'', PNone), (''ccp_alpha'', PReal 0), (''max_samples'', PNone)]"

definition RandomForestClassifier :: "pyval list \<Rightarrow> (string \<times> pyval) list \<Rightarrow> error + estimator" where
  "RandomForestClassifier = construct ''RandomForestClassifier'' rf_defaults [''n_estimators'']"

text \<open>\<^verbatim>\<open>make_pipeline\<close> names each step by its class in lower case.\<close>

definition lower :: "string \<Rightarrow> string" where
  "lower s = map (\<lambda>c. case map_of (zip ''ABCDEFGHIJKLMNOPQRSTUVWXYZ''
                                          ''abcdefghijklmnopqrstuvwxyz'') c of
                         None \<Rightarrow> c | Some l \<Rightarrow> l) s"

definition make_pipeline :: "estimator list \<Rightarrow> (string \<times> estimator) list" where
  "make_pipeline steps = map (\<lambda>e. (lower (est_class e), e)) steps"

text \<open>
  \<open>build_rf_pipeline\<close>. \<open>rf_params\<close> is a dictionary or \<^verbatim>\<open>None\<close>; the source passes it
  as the one positional argument of the constructor: \<^verbatim>\<open>RandomForestClassifier(rf_params)\<close>.
  \<open>build_xgboost_pipeline\<close> makes the same call, \<^verbatim>\<open>XGBClassifier(xgboost_params)\<close>; what
  that constructor does with a positional argument differs between releases of xgboost
  (it binds it to \<open>objective\<close> or refuses it), so only the forest is modelled.
\<close>

definition as_pyval :: "(string \<times> pyval) list option \<Rightarrow> pyval" where
  "as_pyval d = (case d of None \<Rightarrow> PNone | Some kv \<Rightarrow> PDict kv)"

definition build_rf_pipeline ::
  "(string \<times> pyval) list option \<Rightarrow> error + (string \<times> estimator) list" where
  "build_rf_pipeline rf_params =
     (case StandardScaler [] [(''with_mean'', PBool False)] of
        Inl e \<Rightarrow> Inl e
      | Inr scaler \<Rightarrow>
          (case RandomForestClassifier [as_pyval rf_params] [] of
             Inl e \<Rightarrow> Inl e
           | Inr forest \<Rightarrow> Inr (make_pipeline [scaler, forest])))"

text \<open>The parameters of the classifier of a pipeline that was built.\<close>

definition classifier_params :: "error + (string \<times> estimator) list \<Rightarrow> (string \<times> pyval) list" where
  "classifier_params p =
     (case p of
        Inl e \<Rightarrow> []
      | Inr steps \<Rightarrow> (case rev steps of [] \<Rightarrow> [] | s # ss \<Rightarrow> est_params (snd s)))"

section \<open>Facts about rows and labels\<close>

lemma cells_under_absent:
  "c \<notin> set cols \<Longrightarrow> cells_under cols r c = []"
  unfolding cells_under_def
  by (induction cols arbitrary: r) (auto simp: zip_Cons1 split: list.splits)


lemma setitem_scalar_fresh:
  "c \<notin> set (columns df) \<Longrightarrow>
   setitem_scalar df c v = df\<lparr>columns := columns df @ [c], rows := map (\<lambda>r. (fst r, snd r @ [v])) (rows df)\<rparr>"
  by (simp add: setitem_scalar_def)

lemma add_zero_columns_fresh:
  "distinct visit \<Longrightarrow> set visit \<inter> set (columns df) = {} \<Longrightarrow>
   add_zero_columns visit df =
     df\<lparr>columns := columns df @ visit,
        rows := map (\<lambda>r. (fst r, snd r @ replicate (length visit) (Num 0))) (rows df)\<rparr>"
proof (induction visit arbitrary: df)
  case Nil
  then show ?case by simp
next
  case (Cons c cs)
  have fresh: "c \<notin> set (columns df)" using Cons.prems by auto
  let ?df = "setitem_scalar df c (Num 0)"
  have cols: "columns ?df = columns df @ [c]" using fresh by (simp add: setitem_scalar_def)
  have "set cs \<inter> set (columns ?df) = {}" using Cons.prems cols by auto
  with Cons.IH [of ?df] Cons.prems
  have "add_zero_columns cs ?df =
     ?df\<lparr>columns := columns ?df @ cs,
        rows := map (\<lambda>r. (fst r, snd r @ replicate (length cs) (Num 0))) (rows ?df)\<rparr>"
    by simp
  then show ?case using fresh
    by (simp add: setitem_scalar_def comp_def replicate_app_Cons_same)
qed

lemma cells_under_append:
  "length cols = length r \<Longrightarrow>
   cells_under (cols @ cols') (r @ r') c = cells_under cols r c @ cells_under cols' r' c"
  by (simp add: cells_under_def)

lemma cells_under_unique:
  "distinct cols \<Longrightarrow> length cols = length r \<Longrightarrow> c \<in> set cols \<Longrightarrow>
   \<exists>v. cell_of cols r c = Some v \<and> cells_under cols r c = [v]"
proof (induction cols r rule: list_induct2')
  case (4 n ns x xs)
  show ?case
  proof (cases "n = c")
    case True
    then have "c \<notin> set ns" using 4 by auto
    then have "cells_under ns xs c = []" by (rule cells_under_absent)
    then show ?thesis using True by (simp add: cells_under_def cell_of_def)
  next
    case False
    then show ?thesis using 4 by (auto simp: cells_under_def cell_of_def)
  qed
qed auto

lemma cells_under_replicate:
  assumes "distinct cols" "c \<in> set cols"
  shows "cells_under cols (replicate (length cols) z) c = [z]"
proof -
  obtain v where v: "cell_of cols (replicate (length cols) z) c = Some v"
    and u: "cells_under cols (replicate (length cols) z) c = [v]"
    using cells_under_unique [of cols "replicate (length cols) z" c] assms by auto
  from v have "(c, v) \<in> set (zip cols (replicate (length cols) z))"
    unfolding cell_of_def by (rule map_of_SomeD)
  then have "v \<in> set (replicate (length cols) z)" by (rule set_zip_rightD)
  then have "v = z" by simp
  with u show ?thesis by simp
qed

lemma cell_of_absent: "c \<notin> set cols \<Longrightarrow> cell_of cols r c = None"
  unfolding cell_of_def map_of_eq_None_iff by (auto dest: set_zip_leftD)

lemma cells_under_all:
  "distinct cols \<Longrightarrow> length cols = length r \<Longrightarrow>
   concat (map (cells_under cols r) cols) = r"
proof (induction cols r rule: list_induct2')
  case (4 n ns x xs)
  have a: "cells_under (n # ns) (x # xs) n = [x]"
    using 4 cells_under_absent [of n ns xs] by (simp add: cells_under_def)
  have b: "map (cells_under (n # ns) (x # xs)) ns = map (cells_under ns xs) ns"
    using 4 by (auto simp: cells_under_def)
  have "concat (map (cells_under (n # ns) (x # xs)) (n # ns))
      = [x] @ concat (map (cells_under ns xs) ns)"
    unfolding list.map concat.simps a b ..
  also have "\<dots> = x # xs" using 4 by simp
  finally show ?case .
qed auto

lemma filter_label_unique:
  "distinct cols \<Longrightarrow> c \<in> set cols \<Longrightarrow> filter (\<lambda>n. n = c) cols = [c]"
  by (induction cols) (auto simp: filter_empty_conv)

lemma concat_singletons: "concat (map (\<lambda>c. [f c]) cs) = map f cs"
  by (induction cs) auto

text \<open>Every set of missing labels has an order in which the loop can visit it.\<close>

lemma iterates_exists: "\<exists>visit. iterates visit (missing_cols train_df test_df)"
proof -
  have "finite (missing_cols train_df test_df)" by (simp add: missing_cols_def)
  then obtain visit where "set visit = missing_cols train_df test_df" "distinct visit"
    using finite_distinct_list by blast
  then show ?thesis by (auto simp: iterates_def)
qed

text \<open>
  Why labels are taken to be unique: selecting a label that the frame carries twice yields
  both columns, so the selection is longer than the list of labels asked for.
\<close>

lemma getitem_list_repeated_label:
  "getitem_list \<lparr>columns = [''a'', ''a''], rows = [(Num 0, [Num 1, Num 2])]\<rparr> [''a'']
     = Inr \<lparr>columns = [''a'', ''a''], rows = [(Num 0, [Num 1, Num 2])]\<rparr>"
  by (simp add: getitem_list_def cells_under_def)

text \<open>The value \<open>align_features\<close> returns, in closed form.\<close>

lemma align_features_returns:
  assumes rect: "rectangular test_df" and uniq: "unique_columns test_df"
    and it: "iterates visit (missing_cols train_df test_df)"
  shows "snd (align_features visit train_df test_df) =
    Inr \<lparr>columns = columns train_df,
         rows = map (\<lambda>r. (fst r, map (\<lambda>c. case cell_of (columns test_df) (snd r) c of
                                           Some v \<Rightarrow> v | None \<Rightarrow> Num 0) (columns train_df)))
                    (rows test_df)\<rparr>"
proof -
  let ?cols = "columns test_df"
  have dv: "distinct visit" and sv: "set visit = set (columns train_df) - set ?cols"
    using it by (auto simp: iterates_def missing_cols_def)
  have disj: "set visit \<inter> set ?cols = {}" using sv by auto
  let ?t = "add_zero_columns visit test_df"
  have t: "?t = test_df\<lparr>columns := ?cols @ visit,
        rows := map (\<lambda>r. (fst r, snd r @ replicate (length visit) (Num 0))) (rows test_df)\<rparr>"
    using dv disj by (rule add_zero_columns_fresh)
  have dist: "distinct (?cols @ visit)" using uniq dv disj by (auto simp: unique_columns_def)
  have cover: "set (columns train_df) \<subseteq> set (?cols @ visit)" using sv by auto
  have nokey: "\<not> list_ex (\<lambda>c. c \<notin> set (columns ?t)) (columns train_df)"
    using cover t by (auto simp: list_ex_iff)
  have labels: "concat (map (\<lambda>c. filter (\<lambda>n. n = c) (?cols @ visit)) (columns train_df))
      = columns train_df"
  proof -
    have "map (\<lambda>c. filter (\<lambda>n. n = c) (?cols @ visit)) (columns train_df)
        = map (\<lambda>c. [c]) (columns train_df)"
      using cover dist by (intro map_cong refl filter_label_unique) auto
    then show ?thesis by (simp only: concat_singletons [of "\<lambda>c. c"] map_ident)
  qed
  have row: "concat (map (cells_under (?cols @ visit) (snd r @ replicate (length visit) (Num 0)))
                 (columns train_df))
      = map (\<lambda>c. case cell_of ?cols (snd r) c of Some v \<Rightarrow> v | None \<Rightarrow> Num 0) (columns train_df)"
    if r: "r \<in> set (rows test_df)" for r
  proof -
    have len: "length ?cols = length (snd r)"
      using rect r by (auto simp: rectangular_def list_all_iff)
    have one: "cells_under (?cols @ visit) (snd r @ replicate (length visit) (Num 0)) c
        = [case cell_of ?cols (snd r) c of Some v \<Rightarrow> v | None \<Rightarrow> Num 0]"
      if c: "c \<in> set (columns train_df)" for c
    proof (cases "c \<in> set ?cols")
      case True
      then have "c \<notin> set visit" using disj by auto
      then have "cells_under visit (replicate (length visit) (Num 0)) c = []"
        by (rule cells_under_absent)
      moreover obtain v where "cell_of ?cols (snd r) c = Some v" "cells_under ?cols (snd r) c = [v]"
        using cells_under_unique [of ?cols "snd r" c] uniq len True
        by (auto simp: unique_columns_def)
      ultimately show ?thesis using len by (simp add: cells_under_append)
    next
      case False
      then have "c \<in> set visit" using c sv by auto
      then have "cells_under visit (replicate (length visit) (Num 0)) c = [Num 0]"
        using dv by (simp add: cells_under_replicate)
      moreover have "cells_under ?cols (snd r) c = []" using False by (rule cells_under_absent)
      moreover have "cell_of ?cols (snd r) c = None" using False by (rule cell_of_absent)
      ultimately show ?thesis using len by (simp add: cells_under_append)
    qed
    have "map (cells_under (?cols @ visit) (snd r @ replicate (length visit) (Num 0))) (columns train_df)
        = map (\<lambda>c. [case cell_of ?cols (snd r) c of Some v \<Rightarrow> v | None \<Rightarrow> Num 0]) (columns train_df)"
      using one by (intro map_cong refl) auto
    then show ?thesis by (simp only: concat_singletons)
  qed
  show ?thesis
    unfolding align_features_def Let_def snd_conv getitem_list_def
    using nokey labels row by (simp add: t comp_def cong: map_cong)
qed


lemma getitem_list_self:
  assumes "rectangular df" "unique_columns df"
  shows "getitem_list df (columns df) = Inr df"
proof -
  have d: "distinct (columns df)" using assms by (simp add: unique_columns_def)
  have "map (\<lambda>c. filter (\<lambda>n. n = c) (columns df)) (columns df) = map (\<lambda>c. [c]) (columns df)"
    using d by (intro map_cong refl filter_label_unique) auto
  then have labels: "concat (map (\<lambda>c. filter (\<lambda>n. n = c) (columns df)) (columns df)) = columns df"
    by (simp only: concat_singletons [of "\<lambda>c. c"] map_ident)
  have "map (\<lambda>r. (fst r, concat (map (cells_under (columns df) (snd r)) (columns df)))) (rows df)
      = map (\<lambda>r. r) (rows df)"
  proof (intro map_cong refl)
    fix r assume "r \<in> set (rows df)"
    then have "length (columns df) = length (snd r)"
      using assms by (auto simp: rectangular_def list_all_iff)
    then show "(fst r, concat (map (cells_under (columns df) (snd r)) (columns df))) = r"
      using d by (simp add: cells_under_all)
  qed
  then have rws: "map (\<lambda>r. (fst r, concat (map (cells_under (columns df) (snd r)) (columns df)))) (rows df)
      = rows df" by simp
  show ?thesis unfolding getitem_list_def labels rws by (simp add: list_ex_iff)
qed

section \<open>Schema alignment\<close>

text \<open>
  Claim C1. For a candidate frame with unique column labels, whatever order the loop visits
  the missing labels in, \<open>align_features\<close> returns a frame whose columns are exactly the
  columns of \<open>train_df\<close>, in the same order, with the candidate's index: a column of
  \<open>train_df\<close> that the candidate lacks holds 0 in every row, a column of the candidate that
  \<open>train_df\<close> lacks is gone, and a column both have keeps the candidate's cells.
\<close>

theorem align_features_schema:
  assumes "rectangular test_df" and "unique_columns test_df"
    and "iterates visit (missing_cols train_df test_df)"
  shows "\<exists>res. snd (align_features visit train_df test_df) = Inr res
    \<and> columns res = columns train_df
    \<and> rectangular res
    \<and> map fst (rows res) = map fst (rows test_df)
    \<and> (\<forall>k < length (columns train_df). columns train_df ! k \<notin> set (columns test_df) \<longrightarrow>
          (\<forall>r \<in> set (rows res). snd r ! k = Num 0))
    \<and> (\<forall>c \<in> set (columns test_df). c \<notin> set (columns train_df) \<longrightarrow> c \<notin> set (columns res))
    \<and> (\<forall>j < length (rows test_df). \<forall>k < length (columns train_df).
          columns train_df ! k \<in> set (columns test_df) \<longrightarrow>
          cell_of (columns test_df) (snd (rows test_df ! j)) (columns train_df ! k)
            = Some (snd (rows res ! j) ! k))"
proof -
  let ?f = "\<lambda>r c. case cell_of (columns test_df) (snd r) c of Some v \<Rightarrow> v | None \<Rightarrow> Num 0"
  let ?res = "\<lparr>columns = columns train_df,
         rows = map (\<lambda>r. (fst r, map (?f r) (columns train_df))) (rows test_df)\<rparr>"
  have ret: "snd (align_features visit train_df test_df) = Inr ?res"
    using assms by (rule align_features_returns)
  have rect: "rectangular ?res" by (simp add: rectangular_def list_all_iff)
  have idx: "map fst (rows ?res) = map fst (rows test_df)" by (simp add: comp_def)
  have zero: "snd r ! k = Num 0"
    if "k < length (columns train_df)" "columns train_df ! k \<notin> set (columns test_df)"
      "r \<in> set (rows ?res)" for k r
    using that by (auto simp: cell_of_absent)
  have keep: "cell_of (columns test_df) (snd (rows test_df ! j)) (columns train_df ! k)
            = Some (snd (rows ?res ! j) ! k)"
    if j: "j < length (rows test_df)" and k: "k < length (columns train_df)"
      and c: "columns train_df ! k \<in> set (columns test_df)" for j k
  proof -
    have "rows test_df ! j \<in> set (rows test_df)" using j by simp
    then have "length (columns test_df) = length (snd (rows test_df ! j))"
      using assms(1) by (auto simp: rectangular_def list_all_iff)
    then obtain v where "cell_of (columns test_df) (snd (rows test_df ! j)) (columns train_df ! k) = Some v"
      using cells_under_unique [of "columns test_df" "snd (rows test_df ! j)" "columns train_df ! k"]
        assms(2) c by (auto simp: unique_columns_def)
    then show ?thesis using j k by simp
  qed
  show ?thesis
    using ret rect idx zero keep by (intro exI [of _ ?res]) auto
qed

theorem align_features_schema_witness:
  "rectangular ex_test \<and> unique_columns ex_test
   \<and> iterates [''b''] (missing_cols ex_train ex_test)
   \<and> snd (align_features [''b''] ex_train ex_test)
       = Inr \<lparr>columns = [''a'', ''b''], rows = [(Num 7, [Num 1, Num 0])]\<rparr>"
proof -
  have h1: "rectangular ex_test" by (simp add: rectangular_def ex_test_def)
  have h2: "unique_columns ex_test" by (simp add: unique_columns_def ex_test_def)
  have h3: "iterates [''b''] (missing_cols ex_train ex_test)"
    by (auto simp: iterates_def missing_cols_def ex_train_def ex_test_def)
  obtain res where r: "snd (align_features [''b''] ex_train ex_test) = Inr res"
    and c: "columns res = columns ex_train"
    using align_features_schema [OF h1 h2 h3] by blast
  have "snd (align_features [''b''] ex_train ex_test)
       = Inr \<lparr>columns = [''a'', ''b''], rows = [(Num 7, [Num 1, Num 0])]\<rparr>"
    by (simp add: align_features_def getitem_list_def setitem_scalar_def cells_under_def
        ex_train_def ex_test_def)
  with h1 h2 h3 r c show ?thesis by simp
qed

text \<open>
  Claim C2. Alignment is idempotent: aligning the frame that \<open>align_features\<close> returned
  against the same reference (with unique labels) returns that frame again.
\<close>

theorem align_features_idempotent:
  assumes "rectangular T" and "unique_columns T" and "unique_columns ref"
    and "iterates visit (missing_cols ref T)"
  shows "\<exists>res. snd (align_features visit ref T) = Inr res
     \<and> (\<forall>visit'. iterates visit' (missing_cols ref res) \<longrightarrow>
           snd (align_features visit' ref res) = Inr res)"
proof -
  let ?f = "\<lambda>r c. case cell_of (columns T) (snd r) c of Some v \<Rightarrow> v | None \<Rightarrow> Num 0"
  let ?res = "\<lparr>columns = columns ref,
         rows = map (\<lambda>r. (fst r, map (?f r) (columns ref))) (rows T)\<rparr>"
  have ret: "snd (align_features visit ref T) = Inr ?res"
    using assms(1,2,4) by (rule align_features_returns)
  have rect: "rectangular ?res" by (simp add: rectangular_def list_all_iff)
  have uniq: "unique_columns ?res" using assms(3) by (simp add: unique_columns_def)
  have again: "snd (align_features visit' ref ?res) = Inr ?res"
    if "iterates visit' (missing_cols ref ?res)" for visit'
  proof -
    have "visit' = []" using that by (simp add: iterates_def missing_cols_def)
    moreover have "getitem_list ?res (columns ?res) = Inr ?res"
      using rect uniq by (rule getitem_list_self)
    ultimately show ?thesis by (simp add: align_features_def Let_def)
  qed
  show ?thesis using ret again by (intro exI [of _ ?res]) blast
qed

theorem align_features_idempotent_witness:
  "rectangular ex_test \<and> unique_columns ex_test \<and> unique_columns ex_train
   \<and> iterates [''b''] (missing_cols ex_train ex_test)
   \<and> iterates [] (missing_cols ex_train \<lparr>columns = [''a'', ''b''], rows = [(Num 7, [Num 1, Num 0])]\<rparr>)
   \<and> snd (align_features [''b''] ex_train ex_test)
       = Inr \<lparr>columns = [''a'', ''b''], rows = [(Num 7, [Num 1, Num 0])]\<rparr>
   \<and> snd (align_features [] ex_train \<lparr>columns = [''a'', ''b''], rows = [(Num 7, [Num 1, Num 0])]\<rparr>)
       = Inr \<lparr>columns = [''a'', ''b''], rows = [(Num 7, [Num 1, Num 0])]\<rparr>"
proof -
  let ?res = "\<lparr>columns = [''a'', ''b''], rows = [(Num 7, [Num 1, Num 0])]\<rparr>"
  have h1: "rectangular ex_test" by (simp add: rectangular_def ex_test_def)
  have h2: "unique_columns ex_test" by (simp add: unique_columns_def ex_test_def)
  have h3: "unique_columns ex_train" by (simp add: unique_columns_def ex_train_def)
  have h4: "iterates [''b''] (missing_cols ex_train ex_test)"
    by (auto simp: iterates_def missing_cols_def ex_train_def ex_test_def)
  have h5: "iterates [] (missing_cols ex_train ?res)"
    by (auto simp: iterates_def missing_cols_def ex_train_def)
  have first: "snd (align_features [''b''] ex_train ex_test) = Inr ?res"
    by (simp add: align_features_def getitem_list_def setitem_scalar_def cells_under_def
        ex_train_def ex_test_def)
  have "snd (align_features [] ex_train ?res) = Inr ?res"
    using align_features_idempotent [OF h1 h2 h3 h4] first h5 by auto
  with h1 h2 h3 h4 h5 first show ?thesis by simp
qed

text \<open>
  Claim C3 says the caller's frame is the same after the call as before. The loop assigns
  into the frame it was given: with a reference that has the column \<open>b\<close> and a candidate
  that lacks it, the caller's frame has grown the column \<open>b\<close> after the call.
\<close>

theorem align_features_mutates_argument:
  "fst (align_features [''b''] ex_train ex_test)
     = \<lparr>columns = [''a'', ''x'', ''b''], rows = [(Num 7, [Num 1, Num 2, Num 0])]\<rparr>
   \<and> fst (align_features [''b''] ex_train ex_test) \<noteq> ex_test"
  by (simp add: align_features_def Let_def setitem_scalar_def ex_train_def ex_test_def)

text \<open>In general the caller's frame is unchanged exactly when no label is missing.\<close>

lemma align_features_argument_unchanged_iff:
  assumes "iterates visit (missing_cols train_df test_df)"
  shows "fst (align_features visit train_df test_df) = test_df
     \<longleftrightarrow> set (columns train_df) \<subseteq> set (columns test_df)"
proof -
  have dv: "distinct visit" and sv: "set visit = set (columns train_df) - set (columns test_df)"
    using assms by (auto simp: iterates_def missing_cols_def)
  have disj: "set visit \<inter> set (columns test_df) = {}" using sv by auto
  have "columns (add_zero_columns visit test_df) = columns test_df @ visit"
    using add_zero_columns_fresh [OF dv disj] by simp
  moreover have "visit = [] \<Longrightarrow> add_zero_columns visit test_df = test_df" by simp
  moreover have "visit = [] \<longleftrightarrow> set (columns train_df) \<subseteq> set (columns test_df)"
    using sv by (simp add: set_empty [symmetric] del: set_empty)
  ultimately show ?thesis unfolding align_features_def Let_def fst_conv
    by (metis append_self_conv)
qed


section \<open>Outlier removal\<close>

lemma column_cells_rows:
  assumes "list_all (\<lambda>r. length (snd r) = length cols) rs" "distinct cols" "c \<in> set cols"
  shows "concat (map (\<lambda>r. cells_under cols (snd r) c) rs) = map (\<lambda>r. the (cell_of cols (snd r) c)) rs
    \<and> (\<forall>r \<in> set rs. cell_of cols (snd r) c \<noteq> None)"
  using assms(1)
proof (induction rs)
  case Nil
  then show ?case by simp
next
  case (Cons r rs)
  then have "length cols = length (snd r)" by simp
  then obtain v where "cell_of cols (snd r) c = Some v" "cells_under cols (snd r) c = [v]"
    using cells_under_unique [of cols "snd r" c] assms(2,3) by auto
  then show ?case using Cons by simp
qed

lemma series_le_numeric:
  "list_all (\<lambda>v. \<not> is_str v) vs \<Longrightarrow>
   series_le vs t = Inr (map (\<lambda>v. case num_of v of None \<Rightarrow> False | Some x \<Rightarrow> x \<le> t) vs)"
proof (induction vs)
  case Nil
  then show ?case by simp
next
  case (Cons v vs)
  then show ?case by (cases v) simp_all
qed

lemma series_le_Inr_numeric:
  "series_le vs t = Inr m \<Longrightarrow> list_all (\<lambda>v. \<not> is_str v) vs"
proof (induction vs arbitrary: m)
  case Nil
  then show ?case by simp
next
  case (Cons v vs)
  then show ?case by (cases v) (auto split: sum.splits)
qed

lemma mask_filter: "map snd (filter fst (zip (map g rs) rs)) = filter g rs"
  by (induction rs) auto

lemma remove_outliers_filters:
  assumes "rectangular df" "unique_columns df" "c \<in> set (columns df)" "numeric_column df c"
  shows "remove_outliers df c t = Inr (df\<lparr>rows := filter (at_most (columns df) c t) (rows df)\<rparr>)"
proof -
  have cc: "column_cells df c = map (\<lambda>r. the (cell_of (columns df) (snd r) c)) (rows df)"
    and some: "\<forall>r \<in> set (rows df). cell_of (columns df) (snd r) c \<noteq> None"
    using column_cells_rows [of "columns df" "rows df" c] assms(1,2,3)
    by (auto simp: column_cells_def rectangular_def unique_columns_def)
  have "series_le (column_cells df c) t
      = Inr (map (\<lambda>v. case num_of v of None \<Rightarrow> False | Some x \<Rightarrow> x \<le> t) (column_cells df c))"
    using assms(4) unfolding numeric_column_def by (rule series_le_numeric)
  also have "map (\<lambda>v. case num_of v of None \<Rightarrow> False | Some x \<Rightarrow> x \<le> t) (column_cells df c)
      = map (at_most (columns df) c t) (rows df)"
    unfolding cc map_map using some by (intro map_cong refl) (auto simp: at_most_def)
  finally show ?thesis using assms(3)
    by (simp add: remove_outliers_def getitem_col_def getitem_mask_def mask_filter)
qed

lemma remove_outliers_Inr:
  assumes "remove_outliers df c t = Inr res"
  shows "c \<in> set (columns df) \<and> numeric_column df c"
  using assms series_le_Inr_numeric [of "column_cells df c" t]
  by (auto simp: remove_outliers_def getitem_col_def numeric_column_def split: if_splits sum.splits)



text \<open>
  Claim C10. Whenever \<open>remove_outliers\<close> returns a frame, no row of it has a missing
  value under \<open>c\<close>, and every row of \<open>df\<close> whose value under \<open>c\<close> is missing is gone:
  the comparison of NaN with the threshold is false.
\<close>

theorem remove_outliers_drops_missing:
  assumes "rectangular df" and "unique_columns df" and "remove_outliers df c t = Inr res"
  shows "(\<forall>r \<in> set (rows res). \<exists>v. cell_of (columns res) (snd r) c = Some v \<and> v \<noteq> NaN)
    \<and> (\<forall>r \<in> set (rows df). cell_of (columns df) (snd r) c = Some NaN \<longrightarrow> r \<notin> set (rows res))"
proof -
  have c: "c \<in> set (columns df)" and n: "numeric_column df c"
    using assms(3) remove_outliers_Inr by auto
  have "remove_outliers df c t = Inr (df\<lparr>rows := filter (at_most (columns df) c t) (rows df)\<rparr>)"
    using assms(1,2) c n by (rule remove_outliers_filters)
  then have res: "res = df\<lparr>rows := filter (at_most (columns df) c t) (rows df)\<rparr>"
    using assms(3) by simp
  have "\<exists>v. cell_of (columns df) (snd r) c = Some v \<and> v \<noteq> NaN"
    if "at_most (columns df) c t r" for r
    using that by (auto simp: at_most_def split: option.splits)
  moreover have "\<not> at_most (columns df) c t r" if "cell_of (columns df) (snd r) c = Some NaN" for r
    using that by (simp add: at_most_def)
  ultimately show ?thesis unfolding res by auto
qed

theorem remove_outliers_drops_missing_witness:
  "rectangular ex_ages \<and> unique_columns ex_ages
   \<and> remove_outliers ex_ages ''age'' 1000
       = Inr \<lparr>columns = [''id'', ''age''],
              rows = [(Num 0, [Num 1, Num 10]), (Num 2, [Num 3, Num 995]),
                      (Num 3, [Num 4, Num 30])]\<rparr>
   \<and> cell_of (columns ex_ages) (snd (Num 1, [Num 2, NaN])) ''age'' = Some NaN
   \<and> (Num 1, [Num 2, NaN]) \<in> set (rows ex_ages)
   \<and> (Num 1, [Num 2, NaN]) \<notin> set [(Num 0, [Num 1, Num 10]), (Num 2, [Num 3, Num 995]),
                      (Num 3, [Num 4, Num 30])]"
proof -
  let ?res = "\<lparr>columns = [''id'', ''age''],
              rows = [(Num 0, [Num 1, Num 10]), (Num 2, [Num 3, Num 995]),
                      (Num 3, [Num 4, Num 30])]\<rparr>"
  have h1: "rectangular ex_ages" by (simp add: rectangular_def ex_ages_def)
  have h2: "unique_columns ex_ages" by (simp add: unique_columns_def ex_ages_def)
  have h3: "remove_outliers ex_ages ''age'' 1000 = Inr ?res"
    by (simp add: remove_outliers_def getitem_col_def getitem_mask_def column_cells_def
        cells_under_def ex_ages_def)
  have a: "cell_of (columns ex_ages) (snd (Num 1, [Num 2, NaN])) ''age'' = Some NaN"
    by (simp add: cell_of_def ex_ages_def)
  have b: "(Num 1, [Num 2, NaN]) \<in> set (rows ex_ages)" by (simp add: ex_ages_def)
  have "(Num 1, [Num 2, NaN]) \<notin> set (rows ?res)"
    using remove_outliers_drops_missing [OF h1 h2 h3] a b by blast
  with h1 h2 h3 a b show ?thesis by simp
qed


section \<open>The left merge\<close>














section \<open>One-hot encoding\<close>

lemma ex_land_cats: "categories ex_land ''land'' = [''n'', ''t'']"
  by (simp add: categories_def column_cells_def cells_under_def ex_land_def)











section \<open>Oversampling\<close>

lemma starved_classes_nonempty:
  assumes "c \<in> set y" "count_list y c < majority_count y" "count_list y c < k_neighbors + 1"
  shows "starved_classes y \<noteq> []"
proof -
  have "c \<in> set (starved_classes y)" using assms by (simp add: starved_classes_def)
  then show ?thesis by auto
qed

text \<open>
  Claim C5, as the code has it. \<open>smote_oversample\<close> checks nothing itself. When a class
  smaller than the largest one has fewer than \<open>k_neighbors + 1\<close> members, the call fails
  with the ValueError of the library, whatever the synthesis would do; no call fails with
  an InsufficientSamplesError.
\<close>

theorem smote_oversample_too_few:
  "(c \<in> set (ravel y_train)
      \<and> count_list (ravel y_train) c < majority_count (ravel y_train)
      \<and> count_list (ravel y_train) c < k_neighbors + 1 \<longrightarrow>
      smote_oversample synthesize X_train y_train random_state = Inl ValueError)
   \<and> smote_oversample synthesize X_train y_train random_state \<noteq> Inl InsufficientSamplesError"
proof -
  have "smote_oversample synthesize X_train y_train random_state = Inl ValueError"
    if "c \<in> set (ravel y_train)"
      and "count_list (ravel y_train) c < majority_count (ravel y_train)"
      and "count_list (ravel y_train) c < k_neighbors + 1"
    using starved_classes_nonempty [OF that]
    by (simp add: smote_oversample_def fit_resample_def)
  moreover have "smote_oversample synthesize X_train y_train random_state
      \<noteq> Inl InsufficientSamplesError"
    by (simp add: smote_oversample_def fit_resample_def)
  ultimately show ?thesis by blast
qed

theorem smote_oversample_too_few_witness:
  "Num 2 \<in> set (ravel ex_y)
   \<and> count_list (ravel ex_y) (Num 2) < majority_count (ravel ex_y)
   \<and> count_list (ravel ex_y) (Num 2) < k_neighbors + 1
   \<and> smote_oversample (\<lambda>seed X y. (X, y)) ex_X ex_y 42 = Inl ValueError"
proof -
  have h1: "Num 2 \<in> set (ravel ex_y)" by (simp add: ravel_def ex_y_def)
  have h2: "count_list (ravel ex_y) (Num 2) < majority_count (ravel ex_y)"
    by (simp add: ravel_def ex_y_def majority_count_def)
  have h3: "count_list (ravel ex_y) (Num 2) < k_neighbors + 1"
    by (simp add: ravel_def ex_y_def k_neighbors_def)
  have "smote_oversample (\<lambda>seed X y. (X, y)) ex_X ex_y 42 = Inl ValueError"
    using smote_oversample_too_few [of "Num 2" ex_y "\<lambda>seed X y. (X, y)" ex_X 42] h1 h2 h3
    by blast
  with h1 h2 h3 show ?thesis by simp
qed

text \<open>
  Claim C5 as stated fails: with two rows of class 1 and one row of class 2, the minority
  class has one member, and the call ends in ValueError, not in InsufficientSamplesError.
\<close>

theorem smote_oversample_counterexample:
  "count_list (ravel ex_y) (Num 2) = 1
   \<and> majority_count (ravel ex_y) = 2
   \<and> smote_oversample (\<lambda>seed X y. (X, y)) ex_X ex_y 42 = Inl ValueError
   \<and> smote_oversample (\<lambda>seed X y. (X, y)) ex_X ex_y 42 \<noteq> Inl InsufficientSamplesError"
  by (simp add: smote_oversample_def fit_resample_def starved_classes_def majority_count_def
      k_neighbors_def ravel_def ex_X_def ex_y_def)

section \<open>The submission\<close>

lemma ex_predictions:
  "predictions_of ex_model ex_land = Inr [Num 2, Num 2, Num 2]"
  by (simp add: predictions_of_def get_dummies_def is_object_def categories_def column_cells_def
      cells_under_def cell_of_def dummy_name_def reindex_columns_def ex_land_def ex_model_def)

text \<open>
  Claim C6, as the code has it. Once the model has produced its predictions,
  \<open>create_submission\<close> fails with the ValueError of the frame constructor whenever their
  number differs from the number of rows of the template (or the template does not have
  exactly one prediction column); it never fails with a SchemaMismatchError.
  When the numbers agree and the template has one prediction column, the submission has
  the template's column label and its row identifiers, in order, and the predictions as
  its cells.
\<close>

theorem create_submission_cardinality:
  assumes "predictions_of model test_values = Inr predictions"
  shows "(length predictions \<noteq> length (rows submission_format)
          \<or> length (columns submission_format) \<noteq> 1 \<longrightarrow>
            create_submission model test_values submission_format = Inl ValueError)
    \<and> (length predictions = length (rows submission_format)
          \<and> length (columns submission_format) = 1 \<longrightarrow>
          (\<exists>out. create_submission model test_values submission_format = Inr out
            \<and> columns out = columns submission_format
            \<and> map fst (rows out) = map fst (rows submission_format)
            \<and> map snd (rows out) = map (\<lambda>p. [p]) predictions))
    \<and> create_submission model test_values submission_format \<noteq> Inl SchemaMismatchError"
  using assms by (simp add: create_submission_def DataFrame_def)

theorem create_submission_cardinality_witness:
  "predictions_of ex_model ex_land = Inr [Num 2, Num 2, Num 2]
   \<and> length [Num 2, Num 2, Num 2 :: cell] = length (rows ex_format)
   \<and> length (columns ex_format) = 1
   \<and> length [Num 2, Num 2, Num 2 :: cell] \<noteq> length (rows ex_short_format)
   \<and> create_submission ex_model ex_land ex_format
       = Inr \<lparr>columns = [''damage_grade''],
              rows = [(Num 11, [Num 2]), (Num 12, [Num 2]), (Num 13, [Num 2])]\<rparr>
   \<and> create_submission ex_model ex_land ex_short_format = Inl ValueError"
proof -
  have h: "predictions_of ex_model ex_land = Inr [Num 2, Num 2, Num 2]" by (rule ex_predictions)
  have a: "length [Num 2, Num 2, Num 2 :: cell] = length (rows ex_format)"
    and b: "length (columns ex_format) = 1"
    and c: "length [Num 2, Num 2, Num 2 :: cell] \<noteq> length (rows ex_short_format)"
    by (simp_all add: ex_format_def ex_short_format_def)
  have short: "create_submission ex_model ex_land ex_short_format = Inl ValueError"
    using create_submission_cardinality [OF h, of ex_short_format] c by blast
  obtain out where o: "create_submission ex_model ex_land ex_format = Inr out"
    using create_submission_cardinality [OF h, of ex_format] a b by blast
  have "create_submission ex_model ex_land ex_format
       = Inr \<lparr>columns = [''damage_grade''],
              rows = [(Num 11, [Num 2]), (Num 12, [Num 2]), (Num 13, [Num 2])]\<rparr>"
    by (simp add: create_submission_def ex_predictions DataFrame_def ex_format_def)
  with h a b c short o show ?thesis by simp
qed

text \<open>
  Claim C6 as stated fails: three predictions against a template of one row end in
  ValueError, not in SchemaMismatchError.
\<close>

theorem create_submission_counterexample:
  "predictions_of ex_model ex_land = Inr [Num 2, Num 2, Num 2]
   \<and> length (rows ex_short_format) = 1
   \<and> create_submission ex_model ex_land ex_short_format = Inl ValueError
   \<and> create_submission ex_model ex_land ex_short_format \<noteq> Inl SchemaMismatchError"
  by (simp add: create_submission_def ex_predictions DataFrame_def ex_short_format_def)


section \<open>Building the pipeline\<close>

text \<open>
  Claim C7 says the classifier is configured with the given mapping and has the library's
  defaults when the mapping is empty or absent. The source passes the mapping by position,
  so it becomes the number of trees: with \<open>{"max_depth": 5}\<close> the depth keeps its
  default and \<open>n_estimators\<close> is the dictionary; with no mapping \<open>n_estimators\<close> is
  \<^verbatim>\<open>None\<close>, with an empty one the empty dictionary, and not the default 100. The scaler
  has \<open>with_mean\<close> off and nothing is fitted.
\<close>

theorem build_rf_pipeline_passes_mapping_by_position:
  "map_of (classifier_params (build_rf_pipeline (Some [(''max_depth'', PInt 5)]))) ''max_depth''
     = Some PNone
   \<and> map_of (classifier_params (build_rf_pipeline (Some [(''max_depth'', PInt 5)]))) ''n_estimators''
     = Some (PDict [(''max_depth'', PInt 5)])
   \<and> map_of (classifier_params (build_rf_pipeline None)) ''n_estimators'' = Some PNone
   \<and> map_of (classifier_params (build_rf_pipeline (Some []))) ''n_estimators'' = Some (PDict [])
   \<and> map_of rf_defaults ''n_estimators'' = Some (PInt 100)"
  by (simp add: build_rf_pipeline_def classifier_params_def StandardScaler_def
      RandomForestClassifier_def construct_def bind_args_def make_pipeline_def as_pyval_def
      rf_defaults_def)

text \<open>The call the docstring describes, with the mapping as keyword arguments, sets the depth.\<close>

lemma RandomForestClassifier_keywords:
  "(case RandomForestClassifier [] [(''max_depth'', PInt 5)] of
      Inl e \<Rightarrow> None
    | Inr forest \<Rightarrow> map_of (est_params forest) ''max_depth'') = Some (PInt 5)
   \<and> (case RandomForestClassifier [] [] of
      Inl e \<Rightarrow> None
    | Inr forest \<Rightarrow> Some (est_params forest)) = Some rf_defaults"
  by (simp add: RandomForestClassifier_def construct_def bind_args_def rf_defaults_def)

lemma build_rf_pipeline_steps:
  "build_rf_pipeline rf_params =
     Inr [(''standardscaler'',
            \<lparr>est_class = ''StandardScaler'',
             est_params = [(''copy'', PBool True), (''with_mean'', PBool False), (''with_std'', PBool True)],
             est_fitted = False\<rparr>),
          (''randomforestclassifier'',
            \<lparr>est_class = ''RandomForestClassifier'',
             est_params = (''n_estimators'', as_pyval rf_params) # tl rf_defaults,
             est_fitted = False\<rparr>)]"
  by (simp add: build_rf_pipeline_def StandardScaler_def RandomForestClassifier_def construct_def
      bind_args_def make_pipeline_def lower_def rf_defaults_def)

end
